theory Spec2Isabelle
  imports Complex_Main
begin

section \<open>The knapsack notebook: data, models and result table\<close>

text \<open>
  The notebook \<^verbatim>\<open>knapsack-problem-python-solution.ipynb\<close> declares a table of seven
  items, builds the same 0/1 knapsack program twice (once for \<^verbatim>\<open>scipy.optimize.milp\<close>,
  once for PuLP), calls each solver once and appends one boolean column per solve to the
  table. Python floats are modelled as the exact reals their decimal literals denote;
  Python exceptions are values of \<open>py_error\<close>.
\<close>

datatype py_error = ValueError | KeyError | TypeError

subsection \<open>Problem data (cell 2)\<close>

record items_t =
  Item_Id :: "int list"
  Item_Name :: "string list"
  Weight_kg :: "real list"
  Relative_Value :: "int list"

definition knapsack_capacity :: real where
  "knapsack_capacity = 5"

definition items :: items_t where
  "items = \<lparr>
     Item_Id = [1, 2, 3, 4, 5, 6, 7],
     Item_Name = [
       ''Compass'',
       ''Knife'',
       ''Fire Starter Kit'',
       ''Tent'',
       ''Propane Cylinder'',
       ''Food'',
       ''Portable Telescope''],
     Weight_kg = [0.5, 1.5, 0.4, 1.0, 1.6, 1.1, 0.8],
     Relative_Value = [6, 5, 4, 4, 3, 4, 1] \<rparr>"

subsection \<open>Tables: a pandas DataFrame as an ordered list of named columns\<close>

datatype column =
    IntCol "int list"
  | StrCol "string list"
  | FloatCol "real list"
  | BoolCol "bool list"

fun col_len :: "column \<Rightarrow> nat" where
  "col_len (IntCol xs) = length xs"
| "col_len (StrCol xs) = length xs"
| "col_len (FloatCol xs) = length xs"
| "col_len (BoolCol xs) = length xs"

type_synonym dataframe = "(string \<times> column) list"

text \<open>
  \<^verbatim>\<open>pd.DataFrame(items)\<close>: one column per key, in the order of the dict; pandas raises
  ValueError when the arrays do not all have the same length.
\<close>

definition DataFrame :: "items_t \<Rightarrow> py_error + dataframe" where
  "DataFrame d =
     (let cols = [(''Item Id'', IntCol (Item_Id d)),
                  (''Item Name'', StrCol (Item_Name d)),
                  (''Weight (kg)'', FloatCol (Weight_kg d)),
                  (''Relative Value'', IntCol (Relative_Value d))]
      in if list_all (\<lambda>kc. col_len (snd kc) = length (Item_Id d)) cols
         then Inr cols else Inl ValueError)"

definition nrows :: "dataframe \<Rightarrow> nat" where
  "nrows df = (case df of [] \<Rightarrow> 0 | kc # _ \<Rightarrow> col_len (snd kc))"

text \<open>
  Assignment to a key of an insertion-ordered table (a Python dict, the columns of a
  DataFrame): an existing key keeps its position and gets the new value, a new key is
  appended at the end.
\<close>

fun dict_set :: "('k \<times> 'v) list \<Rightarrow> 'k \<Rightarrow> 'v \<Rightarrow> ('k \<times> 'v) list" where
  "dict_set [] k v = [(k, v)]"
| "dict_set (p # ps) k v = (if fst p = k then (k, v) # ps else p # dict_set ps k v)"

fun dict_get :: "('k \<times> 'v) list \<Rightarrow> 'k \<Rightarrow> py_error + 'v" where
  "dict_get [] k = Inl KeyError"
| "dict_get (p # ps) k = (if fst p = k then Inr (snd p) else dict_get ps k)"

text \<open>
  \<^verbatim>\<open>df[k] = values\<close>: pandas raises ValueError when the length of the values differs
  from the length of the index; a table without columns takes any length.
\<close>

definition setitem :: "dataframe \<Rightarrow> string \<Rightarrow> column \<Rightarrow> py_error + dataframe" where
  "setitem df k v =
     (if df \<noteq> [] \<and> col_len v \<noteq> nrows df then Inl ValueError
      else Inr (dict_set df k v))"

subsection \<open>NumPy arithmetic on one-dimensional arrays\<close>

definition np_negative :: "int list \<Rightarrow> int list" where
  "np_negative a = map uminus a"

text \<open>
  Elementwise product with broadcasting of a one-element array; any other pair of
  different lengths raises ValueError.
\<close>

definition np_multiply :: "'a::times list \<Rightarrow> 'a list \<Rightarrow> py_error + 'a list" where
  "np_multiply a b =
     (if length a = length b then Inr (map2 (*) a b)
      else if length a = 1 then Inr (map (\<lambda>y. hd a * y) b)
      else if length b = 1 then Inr (map (\<lambda>x. x * hd b) a)
      else Inl ValueError)"

definition dot :: "real list \<Rightarrow> real list \<Rightarrow> real" where
  "dot a x = sum_list (map2 (*) a x)"

subsection \<open>The SciPy model (cell 3)\<close>

record Bounds =
  lb :: "real list"
  ub :: "real list"

record LinearConstraint =
  A :: "real list"
  con_lb :: real
  con_ub :: real

record milp_problem =
  milp_c :: "real list"
  milp_bounds :: Bounds
  milp_constraints :: LinearConstraint
  milp_integrality :: "nat list"

text \<open>
  Cell 3, with the notebook's variable names. The objective is the negated value vector,
  since \<^verbatim>\<open>milp\<close> minimises.
\<close>

definition scipy_problem :: "py_error + milp_problem" where
  "scipy_problem =
     (case np_multiply (np_negative (replicate 7 1)) (Relative_Value items) of
        Inl e \<Rightarrow> Inl e
      | Inr decision_variables \<Rightarrow>
          let lower_bounds = map (\<lambda>i. 0) [0 ..< length decision_variables];
              upper_bounds = map (\<lambda>i. 1) [0 ..< length decision_variables];
              integrality = replicate (length decision_variables) 1;
              bounds = \<lparr> lb = lower_bounds, ub = upper_bounds \<rparr>;
              constraints = \<lparr> A = Weight_kg items, con_lb = 0, con_ub = knapsack_capacity \<rparr>
          in Inr \<lparr> milp_c = map real_of_int decision_variables,
                   milp_bounds = bounds,
                   milp_constraints = constraints,
                   milp_integrality = integrality \<rparr>)"

text \<open>
  What \<^verbatim>\<open>scipy.optimize.milp\<close> solves, after its documentation: minimise \<open>c \<bullet> x\<close>
  subject to \<open>b\<^sub>l \<le> A x \<le> b\<^sub>u\<close>, \<open>l \<le> x \<le> u\<close>, and the integrality code of each
  variable (0 continuous, 1 integer within bounds, 2 semi-continuous, 3 semi-integer; no
  other code is accepted).
\<close>

definition is_integer :: "real \<Rightarrow> bool" where
  "is_integer v \<longleftrightarrow> of_int \<lfloor>v\<rfloor> = v"

definition var_ok :: "nat \<Rightarrow> real \<Rightarrow> real \<Rightarrow> real \<Rightarrow> bool" where
  "var_ok k l u v =
     (if k = 0 then l \<le> v \<and> v \<le> u
      else if k = 1 then l \<le> v \<and> v \<le> u \<and> is_integer v
      else if k = 2 then v = 0 \<or> (l \<le> v \<and> v \<le> u)
      else if k = 3 then v = 0 \<or> (l \<le> v \<and> v \<le> u \<and> is_integer v)
      else False)"

fun vars_ok :: "nat list \<Rightarrow> real list \<Rightarrow> real list \<Rightarrow> real list \<Rightarrow> bool" where
  "vars_ok (k # ks) (l # ls) (u # us) (v # vs) = (var_ok k l u v \<and> vars_ok ks ls us vs)"
| "vars_ok [] [] [] [] = True"
| "vars_ok _ _ _ _ = False"

definition milp_feasible :: "milp_problem \<Rightarrow> real list \<Rightarrow> bool" where
  "milp_feasible P x \<longleftrightarrow>
     length x = length (milp_c P) \<and>
     length (A (milp_constraints P)) = length x \<and>
     vars_ok (milp_integrality P) (lb (milp_bounds P)) (ub (milp_bounds P)) x \<and>
     con_lb (milp_constraints P) \<le> dot (A (milp_constraints P)) x \<and>
     dot (A (milp_constraints P)) x \<le> con_ub (milp_constraints P)"

definition milp_optimal :: "milp_problem \<Rightarrow> real list \<Rightarrow> bool" where
  "milp_optimal P x \<longleftrightarrow>
     milp_feasible P x \<and> (\<forall>y. milp_feasible P y \<longrightarrow> dot (milp_c P) x \<le> dot (milp_c P) y)"

subsection \<open>The PuLP model (cell 7)\<close>

datatype lp_cat = LpContinuous | LpInteger | LpBinary

datatype lp_sense = LpMinimize | LpMaximize

datatype con_sense = LpConstraintLE | LpConstraintEQ | LpConstraintGE

record LpVariable =
  var_name :: string
  lowBound :: "real option"
  upBound :: "real option"
  cat :: lp_cat

text \<open>
  After the PuLP sources: the characters \<^verbatim>\<open>-+[] ->/\<close> of a name are replaced by an
  underscore, and a variable of category \<open>LpBinary\<close> is stored as an integer variable
  with bounds 0 and 1.
\<close>

definition translate :: "string \<Rightarrow> string" where
  "translate s = map (\<lambda>ch. if ch \<in> set ''-+[] ->/'' then CHR ''_'' else ch) s"

definition LpVariable_init ::
    "string \<Rightarrow> real option \<Rightarrow> real option \<Rightarrow> lp_cat \<Rightarrow> LpVariable" where
  "LpVariable_init name lo up c =
     (if c = LpBinary
      then \<lparr> var_name = translate name, lowBound = Some 0, upBound = Some 1, cat = LpInteger \<rparr>
      else \<lparr> var_name = translate name, lowBound = lo, upBound = up, cat = c \<rparr>)"

text \<open>\<^verbatim>\<open>dict(pairs)\<close>: later pairs overwrite earlier ones with the same key.\<close>

definition py_dict :: "('k \<times> 'v) list \<Rightarrow> ('k \<times> 'v) list" where
  "py_dict kvs = foldl (\<lambda>d kv. dict_set d (fst kv) (snd kv)) [] kvs"

definition LpVariable_dicts ::
    "string \<Rightarrow> string list \<Rightarrow> real option \<Rightarrow> real option \<Rightarrow> lp_cat
       \<Rightarrow> (string \<times> LpVariable) list" where
  "LpVariable_dicts name indices lo up c =
     py_dict (map (\<lambda>i. (i, LpVariable_init (name @ ''_'' @ i) lo up c)) indices)"

text \<open>An affine expression: the terms (variable, coefficient) of a sum.\<close>

type_synonym LpAffineExpression = "(LpVariable \<times> real) list"

record LpConstraint =
  con_expr :: LpAffineExpression
  con_sense :: con_sense
  con_rhs :: real

record LpProblem =
  prob_name :: string
  sense :: lp_sense
  objective :: LpAffineExpression
  constraints :: "LpConstraint list"

definition LpProblem_init :: "string \<Rightarrow> lp_sense \<Rightarrow> LpProblem" where
  "LpProblem_init name s =
     \<lparr> prob_name = name, sense = s, objective = [], constraints = [] \<rparr>"

text \<open>\<^verbatim>\<open>prob += e\<close>: an expression becomes the objective, a constraint is added.\<close>

datatype lp_item = Expr LpAffineExpression | Constr LpConstraint

fun iadd :: "LpProblem \<Rightarrow> lp_item \<Rightarrow> LpProblem" where
  "iadd prob (Expr e) = prob\<lparr> objective := e \<rparr>"
| "iadd prob (Constr c) = prob\<lparr> constraints := constraints prob @ [c] \<rparr>"

definition lpSum :: "LpAffineExpression list \<Rightarrow> LpAffineExpression" where
  "lpSum es = concat es"

text \<open>A list comprehension whose body may raise: the first error ends it.\<close>

fun list_comp :: "('a \<Rightarrow> py_error + 'b) \<Rightarrow> 'a list \<Rightarrow> py_error + 'b list" where
  "list_comp f [] = Inr []"
| "list_comp f (x # xs) =
     (case f x of
        Inl e \<Rightarrow> Inl e
      | Inr y \<Rightarrow> (case list_comp f xs of Inl e \<Rightarrow> Inl e | Inr ys \<Rightarrow> Inr (y # ys)))"

text \<open>\<^verbatim>\<open>coefs[i] * vars[i]\<close>: both lookups raise KeyError on a missing key.\<close>

definition coef_times_var ::
    "(string \<times> real) list \<Rightarrow> (string \<times> LpVariable) list \<Rightarrow> string
       \<Rightarrow> py_error + LpAffineExpression" where
  "coef_times_var coefs vars i =
     (case dict_get coefs i of
        Inl e \<Rightarrow> Inl e
      | Inr cf \<Rightarrow> (case dict_get vars i of Inl e \<Rightarrow> Inl e | Inr v \<Rightarrow> Inr [(v, cf)]))"

definition x1_decision_var :: "(string \<times> LpVariable) list" where
  "x1_decision_var = LpVariable_dicts ''x1'' (Item_Name items) (Some 0) (Some 1) LpBinary"

definition weights :: "(string \<times> real) list" where
  "weights = py_dict (zip (Item_Name items) (Weight_kg items))"

text \<open>The relative values are Python ints; as coefficients they are read as reals.\<close>

definition relative_values :: "(string \<times> real) list" where
  "relative_values = py_dict (zip (Item_Name items) (map real_of_int (Relative_Value items)))"

definition pulp_problem :: "py_error + LpProblem" where
  "pulp_problem =
     (let prob = LpProblem_init ''knapsack_pulp'' LpMaximize in
      case list_comp (coef_times_var relative_values x1_decision_var) (Item_Name items) of
        Inl e \<Rightarrow> Inl e
      | Inr value_terms \<Rightarrow>
          let prob = iadd prob (Expr (lpSum value_terms)) in
          (case list_comp (coef_times_var weights x1_decision_var) (Item_Name items) of
             Inl e \<Rightarrow> Inl e
           | Inr weight_terms \<Rightarrow>
               Inr (iadd prob (Constr \<lparr> con_expr = lpSum weight_terms,
                                         con_sense = LpConstraintLE,
                                         con_rhs = knapsack_capacity \<rparr>))))"

text \<open>
  What the solver is asked for. An assignment gives every variable, by name, a value;
  it is feasible when every variable of the problem is within its bounds, integer
  variables are integers, and every constraint holds.
\<close>

definition lpvar_ok :: "LpVariable \<Rightarrow> real \<Rightarrow> bool" where
  "lpvar_ok v x \<longleftrightarrow>
     (case lowBound v of None \<Rightarrow> True | Some l \<Rightarrow> l \<le> x) \<and>
     (case upBound v of None \<Rightarrow> True | Some u \<Rightarrow> x \<le> u) \<and>
     (cat v = LpContinuous \<or> is_integer x)"

definition expr_value :: "LpAffineExpression \<Rightarrow> (string \<Rightarrow> real) \<Rightarrow> real" where
  "expr_value e a = sum_list (map (\<lambda>t. snd t * a (var_name (fst t))) e)"

definition con_holds :: "LpConstraint \<Rightarrow> (string \<Rightarrow> real) \<Rightarrow> bool" where
  "con_holds c a =
     (case con_sense c of
        LpConstraintLE \<Rightarrow> expr_value (con_expr c) a \<le> con_rhs c
      | LpConstraintEQ \<Rightarrow> expr_value (con_expr c) a = con_rhs c
      | LpConstraintGE \<Rightarrow> expr_value (con_expr c) a \<ge> con_rhs c)"

definition variables :: "LpProblem \<Rightarrow> LpVariable list" where
  "variables prob =
     remdups (map fst (objective prob) @ concat (map (\<lambda>c. map fst (con_expr c)) (constraints prob)))"

definition pulp_feasible :: "LpProblem \<Rightarrow> (string \<Rightarrow> real) \<Rightarrow> bool" where
  "pulp_feasible prob a \<longleftrightarrow>
     list_all (\<lambda>v. lpvar_ok v (a (var_name v))) (variables prob) \<and>
     list_all (\<lambda>c. con_holds c a) (constraints prob)"

definition pulp_optimal :: "LpProblem \<Rightarrow> (string \<Rightarrow> real) \<Rightarrow> bool" where
  "pulp_optimal prob a \<longleftrightarrow>
     pulp_feasible prob a \<and>
     (\<forall>b. pulp_feasible prob b \<longrightarrow>
        (case sense prob of
           LpMaximize \<Rightarrow> expr_value (objective prob) b \<le> expr_value (objective prob) a
         | LpMinimize \<Rightarrow> expr_value (objective prob) a \<le> expr_value (objective prob) b))"

text \<open>
  Cell 9: the values of the variables, in the order of the keys of the dict. The value
  of a variable is \<open>None\<close> as long as no solver has set it.
\<close>

definition pulp_decision_var_results :: "(string \<Rightarrow> real option) \<Rightarrow> real option list" where
  "pulp_decision_var_results val = map (\<lambda>kv. val (var_name (snd kv))) x1_decision_var"

subsection \<open>Formatting the solution (cells 6 and 10)\<close>

definition scipy_items_to_select :: "real list \<Rightarrow> bool list" where
  "scipy_items_to_select sol_x = map (\<lambda>i. if i = 1 then True else False) sol_x"

definition pulp_items_to_select :: "real option list \<Rightarrow> bool list" where
  "pulp_items_to_select results = map (\<lambda>i. if i = Some 1 then True else False) results"

subsection \<open>The run of the notebook\<close>

text \<open>
  The solvers are outside the repository, so the run takes what they return as its
  arguments: \<open>sol_x\<close> is the field \<^verbatim>\<open>x\<close> of SciPy's result (\<open>None\<close> when no solution
  was found), \<open>val\<close> gives the value PuLP's variables hold after the solve. The run
  returns the table after each cell that assigned it (cells 2, 6 and 10), and the
  exception that ended the run, if any. Cell 5 multiplies \<^verbatim>\<open>sol.x\<close> with the weights,
  which raises when \<^verbatim>\<open>sol.x\<close> is \<open>None\<close> or has another shape.
\<close>

definition run_notebook ::
    "real list option \<Rightarrow> (string \<Rightarrow> real option) \<Rightarrow> dataframe list \<times> py_error option" where
  "run_notebook sol_x val =
     (case DataFrame items of
        Inl e \<Rightarrow> ([], Some e)
      | Inr df \<Rightarrow>
     (case scipy_problem of
        Inl e \<Rightarrow> ([df], Some e)
      | Inr P \<Rightarrow>
     (case sol_x of
        None \<Rightarrow> ([df], Some TypeError)
      | Some x \<Rightarrow>
     (case np_multiply x (Weight_kg items) of
        Inl e \<Rightarrow> ([df], Some e)
      | Inr xw \<Rightarrow>
     (case setitem df ''scipy_items_to_select'' (BoolCol (scipy_items_to_select x)) of
        Inl e \<Rightarrow> ([df], Some e)
      | Inr df1 \<Rightarrow>
     (case pulp_problem of
        Inl e \<Rightarrow> ([df, df1], Some e)
      | Inr prob \<Rightarrow>
     (case setitem df1 ''pulp_items_to_select''
             (BoolCol (pulp_items_to_select (pulp_decision_var_results val))) of
        Inl e \<Rightarrow> ([df, df1], Some e)
      | Inr df2 \<Rightarrow> ([df, df1, df2], None))))))))"

subsection \<open>Notions used to state the properties\<close>

text \<open>The binary variable that \<open>LpVariable_dicts\<close> creates under a given name.\<close>

definition binary_var :: "string \<Rightarrow> LpVariable" where
  "binary_var n = \<lparr> var_name = n, lowBound = Some 0, upBound = Some 1, cat = LpInteger \<rparr>"

text \<open>
  The vector of an assignment of the PuLP variables: the value of each variable, in the
  order of the items.
\<close>

definition var_values :: "(string \<Rightarrow> real) \<Rightarrow> real list" where
  "var_values a = map (\<lambda>kv. a (var_name (snd kv))) x1_decision_var"

definition binary :: "real list \<Rightarrow> bool" where
  "binary x \<longleftrightarrow> list_all (\<lambda>v. v = 0 \<or> v = 1) x"

definition total_weight :: "real list \<Rightarrow> real" where
  "total_weight x = dot (Weight_kg items) x"

definition total_value :: "real list \<Rightarrow> real" where
  "total_value x = dot (map real_of_int (Relative_Value items)) x"

text \<open>An assignment of the PuLP variables that takes every item but two.\<close>

definition chosen :: "string \<Rightarrow> real" where
  "chosen n = (if n = ''x1_Propane_Cylinder'' \<or> n = ''x1_Portable_Telescope'' then 0 else 1)"

section \<open>Properties\<close>

subsection \<open>The two models, evaluated\<close>

lemma DataFrame_items_eq:
  "DataFrame items =
     Inr [(''Item Id'', IntCol [1, 2, 3, 4, 5, 6, 7]),
          (''Item Name'', StrCol [''Compass'', ''Knife'', ''Fire Starter Kit'', ''Tent'',
                                  ''Propane Cylinder'', ''Food'', ''Portable Telescope'']),
          (''Weight (kg)'', FloatCol [0.5, 1.5, 0.4, 1.0, 1.6, 1.1, 0.8]),
          (''Relative Value'', IntCol [6, 5, 4, 4, 3, 4, 1])]"
  by (simp add: DataFrame_def items_def)

lemma scipy_problem_eq:
  "scipy_problem = Inr \<lparr>
     milp_c = [-6, -5, -4, -4, -3, -4, -1],
     milp_bounds = \<lparr> lb = [0, 0, 0, 0, 0, 0, 0], ub = [1, 1, 1, 1, 1, 1, 1] \<rparr>,
     milp_constraints = \<lparr> A = [0.5, 1.5, 0.4, 1.0, 1.6, 1.1, 0.8], con_lb = 0, con_ub = 5 \<rparr>,
     milp_integrality = [1, 1, 1, 1, 1, 1, 1] \<rparr>"
  by (simp add: scipy_problem_def np_multiply_def np_negative_def items_def
      knapsack_capacity_def eval_nat_numeral upt_rec)

lemma x1_decision_var_eq:
  "x1_decision_var =
     [(''Compass'', binary_var ''x1_Compass''),
      (''Knife'', binary_var ''x1_Knife''),
      (''Fire Starter Kit'', binary_var ''x1_Fire_Starter_Kit''),
      (''Tent'', binary_var ''x1_Tent''),
      (''Propane Cylinder'', binary_var ''x1_Propane_Cylinder''),
      (''Food'', binary_var ''x1_Food''),
      (''Portable Telescope'', binary_var ''x1_Portable_Telescope'')]"
  by (simp add: x1_decision_var_def LpVariable_dicts_def py_dict_def items_def
      LpVariable_init_def translate_def binary_var_def)

lemma weights_eq:
  "weights =
     [(''Compass'', 0.5), (''Knife'', 1.5), (''Fire Starter Kit'', 0.4), (''Tent'', 1.0),
      (''Propane Cylinder'', 1.6), (''Food'', 1.1), (''Portable Telescope'', 0.8)]"
  by (simp add: weights_def py_dict_def items_def)

lemma relative_values_eq:
  "relative_values =
     [(''Compass'', 6), (''Knife'', 5), (''Fire Starter Kit'', 4), (''Tent'', 4),
      (''Propane Cylinder'', 3), (''Food'', 4), (''Portable Telescope'', 1)]"
  by (simp add: relative_values_def py_dict_def items_def)

lemma pulp_problem_eq:
  "pulp_problem = Inr \<lparr>
     prob_name = ''knapsack_pulp'',
     sense = LpMaximize,
     objective =
       [(binary_var ''x1_Compass'', 6), (binary_var ''x1_Knife'', 5),
        (binary_var ''x1_Fire_Starter_Kit'', 4), (binary_var ''x1_Tent'', 4),
        (binary_var ''x1_Propane_Cylinder'', 3), (binary_var ''x1_Food'', 4),
        (binary_var ''x1_Portable_Telescope'', 1)],
     constraints =
       [\<lparr> con_expr =
            [(binary_var ''x1_Compass'', 0.5), (binary_var ''x1_Knife'', 1.5),
             (binary_var ''x1_Fire_Starter_Kit'', 0.4), (binary_var ''x1_Tent'', 1.0),
             (binary_var ''x1_Propane_Cylinder'', 1.6), (binary_var ''x1_Food'', 1.1),
             (binary_var ''x1_Portable_Telescope'', 0.8)],
           con_sense = LpConstraintLE,
           con_rhs = 5 \<rparr>] \<rparr>"
  by (simp add: pulp_problem_def x1_decision_var_eq weights_eq relative_values_eq items_def
      coef_times_var_def lpSum_def LpProblem_init_def knapsack_capacity_def)

subsection \<open>Binary vectors of length seven\<close>

lemma len7: "length (x::'a list) = 7 \<Longrightarrow> \<exists>a b c d e f g. x = [a, b, c, d, e, f, g]"
  by (auto simp add: eval_nat_numeral length_Suc_conv)

lemma zero_one_iff: "0 \<le> v \<and> v \<le> 1 \<and> is_integer v \<longleftrightarrow> v = 0 \<or> v = 1"
proof
  assume h: "0 \<le> v \<and> v \<le> 1 \<and> is_integer v"
  then have "of_int \<lfloor>v\<rfloor> = v" unfolding is_integer_def by blast
  moreover from h have "0 \<le> \<lfloor>v\<rfloor>" "\<lfloor>v\<rfloor> \<le> 1" by (simp_all add: floor_le_one)
  then have "\<lfloor>v\<rfloor> = 0 \<or> \<lfloor>v\<rfloor> = 1" by linarith
  ultimately show "v = 0 \<or> v = 1" by auto
next
  assume "v = 0 \<or> v = 1" then show "0 \<le> v \<and> v \<le> 1 \<and> is_integer v"
    by (auto simp: is_integer_def)
qed

lemma vars_ok_length: "vars_ok ks ls us x \<Longrightarrow> length x = length ks"
  by (induction ks ls us x rule: vars_ok.induct) auto

lemma totals_explicit:
  "total_weight [a, b, c, d, e, f, g]
     = 0.5 * a + 1.5 * b + 0.4 * c + 1.0 * d + 1.6 * e + 1.1 * f + 0.8 * g"
  "total_value [a, b, c, d, e, f, g] = 6 * a + 5 * b + 4 * c + 4 * d + 3 * e + 4 * f + g"
  by (simp_all add: total_weight_def total_value_def dot_def items_def)

text \<open>
  The case split over the \<open>2\<^sup>7\<close> binary vectors. The bound holds with a margin: no
  selection other than \<open>(1,1,1,1,0,1,0)\<close> reaches the value 23 unless it weighs 5.3 or
  more, so a total weight within 0.2 of the capacity may be rounded either way without
  changing the optimum.
\<close>

lemma knapsack_arith:
  fixes a b c d e f g :: real
  assumes "a = 0 \<or> a = 1" "b = 0 \<or> b = 1" "c = 0 \<or> c = 1" "d = 0 \<or> d = 1"
    "e = 0 \<or> e = 1" "f = 0 \<or> f = 1" "g = 0 \<or> g = 1"
    and "0.5 * a + 1.5 * b + 0.4 * c + 1.0 * d + 1.6 * e + 1.1 * f + 0.8 * g \<le> 5.2"
  shows "6 * a + 5 * b + 4 * c + 4 * d + 3 * e + 4 * f + g \<le> 23 \<and>
     (6 * a + 5 * b + 4 * c + 4 * d + 3 * e + 4 * f + g = 23
        \<longrightarrow> [a, b, c, d, e, f, g] = [1, 1, 1, 1, 0, 1, 0])"
  using assms by (elim disjE; simp)

lemma knapsack_margin:
  assumes "length x = 7" and "binary x" and "total_weight x \<le> knapsack_capacity + 0.2"
  shows "total_value x \<le> 23 \<and> (total_value x = 23 \<longrightarrow> x = [1, 1, 1, 1, 0, 1, 0])"
proof -
  from assms(1) obtain a b c d e f g where x: "x = [a, b, c, d, e, f, g]"
    using len7 by blast
  from assms(2) have bin: "a = 0 \<or> a = 1" "b = 0 \<or> b = 1" "c = 0 \<or> c = 1" "d = 0 \<or> d = 1"
    "e = 0 \<or> e = 1" "f = 0 \<or> f = 1" "g = 0 \<or> g = 1"
    by (simp_all add: x binary_def)
  from assms(3)
  have w: "0.5 * a + 1.5 * b + 0.4 * c + 1.0 * d + 1.6 * e + 1.1 * f + 0.8 * g \<le> 5.2"
    by (simp add: x totals_explicit knapsack_capacity_def)
  show ?thesis
    unfolding x totals_explicit by (rule knapsack_arith [OF bin w])
qed

lemma knapsack_core:
  assumes "length x = 7" and "binary x" and "total_weight x \<le> knapsack_capacity"
  shows "total_value x \<le> 23 \<and> (total_value x = 23 \<longrightarrow> x = [1, 1, 1, 1, 0, 1, 0])"
  using assms(3) by (intro knapsack_margin assms(1,2)) simp

subsection \<open>The feasible sets of the two models\<close>

lemma scipy_problem_fields:
  assumes "scipy_problem = Inr P"
  shows "milp_c P = [-6, -5, -4, -4, -3, -4, -1]"
    and "lb (milp_bounds P) = [0, 0, 0, 0, 0, 0, 0]"
    and "ub (milp_bounds P) = [1, 1, 1, 1, 1, 1, 1]"
    and "A (milp_constraints P) = [0.5, 1.5, 0.4, 1.0, 1.6, 1.1, 0.8]"
    and "con_lb (milp_constraints P) = 0"
    and "con_ub (milp_constraints P) = 5"
    and "milp_integrality P = [1, 1, 1, 1, 1, 1, 1]"
  using assms by (auto simp add: scipy_problem_eq)

lemma pulp_problem_fields:
  assumes "pulp_problem = Inr prob"
  shows "sense prob = LpMaximize"
    and "objective prob =
       [(binary_var ''x1_Compass'', 6), (binary_var ''x1_Knife'', 5),
        (binary_var ''x1_Fire_Starter_Kit'', 4), (binary_var ''x1_Tent'', 4),
        (binary_var ''x1_Propane_Cylinder'', 3), (binary_var ''x1_Food'', 4),
        (binary_var ''x1_Portable_Telescope'', 1)]"
    and "constraints prob =
       [\<lparr> con_expr =
            [(binary_var ''x1_Compass'', 0.5), (binary_var ''x1_Knife'', 1.5),
             (binary_var ''x1_Fire_Starter_Kit'', 0.4), (binary_var ''x1_Tent'', 1.0),
             (binary_var ''x1_Propane_Cylinder'', 1.6), (binary_var ''x1_Food'', 1.1),
             (binary_var ''x1_Portable_Telescope'', 0.8)],
           con_sense = LpConstraintLE,
           con_rhs = 5 \<rparr>]"
  using assms by (auto simp add: pulp_problem_eq)

lemma dot_nonneg:
  "list_all (\<lambda>w. 0 \<le> w) ws \<Longrightarrow> list_all (\<lambda>v. 0 \<le> v) x \<Longrightarrow> 0 \<le> dot ws x"
proof (induction ws arbitrary: x)
  case Nil
  then show ?case by (simp add: dot_def)
next
  case (Cons w ws)
  show ?case
  proof (cases x)
    case Nil
    then show ?thesis by (simp add: dot_def)
  next
    case (Cons v vs)
    with Cons.prems have "0 \<le> w * v" and "0 \<le> dot ws vs"
      using Cons.IH [of vs] by simp_all
    then show ?thesis by (simp add: Cons dot_def)
  qed
qed

lemma binary_nonneg: "binary x \<Longrightarrow> list_all (\<lambda>v. 0 \<le> v) x"
  unfolding binary_def by (induction x) auto

lemma weights_nonneg: "list_all (\<lambda>w. 0 \<le> w) (Weight_kg items)"
  by (simp add: items_def)

lemma vars_ok_binary7:
  "vars_ok [1, 1, 1, 1, 1, 1, 1] [0, 0, 0, 0, 0, 0, 0] [1, 1, 1, 1, 1, 1, 1] x
     \<longleftrightarrow> length x = 7 \<and> binary x"
proof
  assume h: "vars_ok [1, 1, 1, 1, 1, 1, 1] [0, 0, 0, 0, 0, 0, 0] [1, 1, 1, 1, 1, 1, 1] x"
  then have l: "length x = 7" by (auto dest: vars_ok_length)
  then obtain a b c d e f g where x: "x = [a, b, c, d, e, f, g]" using len7 by blast
  from h show "length x = 7 \<and> binary x"
    unfolding x by (simp add: var_ok_def zero_one_iff binary_def)
next
  assume h: "length x = 7 \<and> binary x"
  then obtain a b c d e f g where x: "x = [a, b, c, d, e, f, g]" using len7 by blast
  from h show "vars_ok [1, 1, 1, 1, 1, 1, 1] [0, 0, 0, 0, 0, 0, 0] [1, 1, 1, 1, 1, 1, 1] x"
    unfolding x by (simp add: var_ok_def zero_one_iff binary_def)
qed

lemma milp_feasible_iff:
  assumes "scipy_problem = Inr P"
  shows "milp_feasible P x \<longleftrightarrow>
           length x = 7 \<and> binary x \<and> total_weight x \<le> knapsack_capacity"
proof -
  note P = scipy_problem_fields [OF assms]
  have F: "milp_feasible P x \<longleftrightarrow>
      length x = 7 \<and>
      vars_ok [1, 1, 1, 1, 1, 1, 1] [0, 0, 0, 0, 0, 0, 0] [1, 1, 1, 1, 1, 1, 1] x \<and>
      0 \<le> total_weight x \<and> total_weight x \<le> knapsack_capacity"
    by (auto simp add: milp_feasible_def P total_weight_def knapsack_capacity_def items_def)
  have "binary x \<Longrightarrow> 0 \<le> total_weight x"
    unfolding total_weight_def by (intro dot_nonneg weights_nonneg binary_nonneg)
  then show ?thesis
    unfolding F vars_ok_binary7 by blast
qed

lemma dot_uminus: "dot (map uminus vs) x = - dot vs x"
proof (induction vs arbitrary: x)
  case Nil
  then show ?case by (simp add: dot_def)
next
  case (Cons v vs)
  then show ?case by (cases x) (simp_all add: dot_def)
qed

lemma milp_objective:
  assumes "scipy_problem = Inr P"
  shows "dot (milp_c P) x = - total_value x"
  using dot_uminus [of "map real_of_int (Relative_Value items)" x]
  by (simp add: scipy_problem_fields [OF assms] total_value_def items_def)

lemma var_values_eq:
  "var_values a = [a ''x1_Compass'', a ''x1_Knife'', a ''x1_Fire_Starter_Kit'', a ''x1_Tent'',
     a ''x1_Propane_Cylinder'', a ''x1_Food'', a ''x1_Portable_Telescope'']"
  by (simp add: var_values_def x1_decision_var_eq binary_var_def)

lemma lpvar_ok_binary_var: "lpvar_ok (binary_var n) v \<longleftrightarrow> v = 0 \<or> v = 1"
  using zero_one_iff [of v] by (simp add: lpvar_ok_def binary_var_def)

lemma pulp_variables:
  assumes "pulp_problem = Inr prob"
  shows "variables prob = map snd x1_decision_var"
  by (simp add: pulp_problem_fields [OF assms] x1_decision_var_eq variables_def binary_var_def)

lemma pulp_objective:
  assumes "pulp_problem = Inr prob"
  shows "expr_value (objective prob) a = total_value (var_values a)"
  by (simp add: pulp_problem_fields [OF assms] var_values_eq totals_explicit expr_value_def
      binary_var_def)

lemma pulp_feasible_iff:
  assumes "pulp_problem = Inr prob"
  shows "pulp_feasible prob a \<longleftrightarrow>
           binary (var_values a) \<and> total_weight (var_values a) \<le> knapsack_capacity"
proof -
  have 1: "list_all (\<lambda>v. lpvar_ok v (a (var_name v))) (variables prob) = binary (var_values a)"
    by (simp add: pulp_variables [OF assms] x1_decision_var_eq var_values_eq binary_def
        lpvar_ok_binary_var) (simp add: binary_var_def)
  have 2: "list_all (\<lambda>c. con_holds c a) (constraints prob)
             = (total_weight (var_values a) \<le> knapsack_capacity)"
    by (simp add: pulp_problem_fields [OF assms] var_values_eq totals_explicit expr_value_def
        binary_var_def con_holds_def knapsack_capacity_def add.assoc)
  show ?thesis unfolding pulp_feasible_def 1 2 ..
qed

subsection \<open>The optimum\<close>

lemma selection_totals:
  "length [1, 1, 1, 1, 0, 1, 0 :: real] = 7"
  "binary [1, 1, 1, 1, 0, 1, 0]"
  "total_weight [1, 1, 1, 1, 0, 1, 0] = 4.5"
  "total_value [1, 1, 1, 1, 0, 1, 0] = 23"
  by (simp_all add: binary_def totals_explicit)

lemma selection_feasible: "total_weight [1, 1, 1, 1, 0, 1, 0] \<le> knapsack_capacity"
  by (simp add: selection_totals knapsack_capacity_def)

lemma milp_optimal_iff:
  assumes "scipy_problem = Inr P"
  shows "milp_optimal P x \<longleftrightarrow> x = [1, 1, 1, 1, 0, 1, 0]"
proof
  assume opt: "milp_optimal P x"
  then have fx: "length x = 7" "binary x" "total_weight x \<le> knapsack_capacity"
    by (simp_all add: milp_optimal_def milp_feasible_iff [OF assms])
  have "milp_feasible P [1, 1, 1, 1, 0, 1, 0]"
    by (simp add: milp_feasible_iff [OF assms] selection_totals knapsack_capacity_def)
  with opt have "dot (milp_c P) x \<le> dot (milp_c P) [1, 1, 1, 1, 0, 1, 0]"
    unfolding milp_optimal_def by blast
  then have "23 \<le> total_value x"
    by (simp add: milp_objective [OF assms] selection_totals)
  with knapsack_core [OF fx] show "x = [1, 1, 1, 1, 0, 1, 0]" by simp
next
  assume x: "x = [1, 1, 1, 1, 0, 1, 0]"
  have "dot (milp_c P) x \<le> dot (milp_c P) y" if "milp_feasible P y" for y
  proof -
    from that have "total_value y \<le> 23"
      using knapsack_core [of y] by (simp add: milp_feasible_iff [OF assms])
    then show ?thesis by (simp add: milp_objective [OF assms] x selection_totals)
  qed
  then show "milp_optimal P x"
    unfolding milp_optimal_def
    by (simp add: milp_feasible_iff [OF assms] x selection_totals knapsack_capacity_def)
qed

lemma var_values_chosen: "var_values chosen = [1, 1, 1, 1, 0, 1, 0]"
  by (simp add: var_values_eq chosen_def)

lemma length_var_values: "length (var_values a) = 7"
  by (simp add: var_values_eq)

lemma pulp_optimal_iff:
  assumes "pulp_problem = Inr prob"
  shows "pulp_optimal prob a \<longleftrightarrow> var_values a = [1, 1, 1, 1, 0, 1, 0]"
proof
  assume opt: "pulp_optimal prob a"
  then have fa: "binary (var_values a)" "total_weight (var_values a) \<le> knapsack_capacity"
    by (simp_all add: pulp_optimal_def pulp_feasible_iff [OF assms])
  have "pulp_feasible prob chosen"
    by (simp add: pulp_feasible_iff [OF assms] var_values_chosen selection_totals
        knapsack_capacity_def)
  with opt have "expr_value (objective prob) chosen \<le> expr_value (objective prob) a"
    unfolding pulp_optimal_def by (auto simp add: pulp_problem_fields [OF assms])
  then have "23 \<le> total_value (var_values a)"
    by (simp add: pulp_objective [OF assms] var_values_chosen selection_totals)
  with knapsack_core [OF length_var_values fa] show "var_values a = [1, 1, 1, 1, 0, 1, 0]"
    by simp
next
  assume a: "var_values a = [1, 1, 1, 1, 0, 1, 0]"
  have "expr_value (objective prob) b \<le> expr_value (objective prob) a"
    if "pulp_feasible prob b" for b
  proof -
    from that have "total_value (var_values b) \<le> 23"
      using knapsack_core [OF length_var_values, of b]
      by (simp add: pulp_feasible_iff [OF assms])
    then show ?thesis by (simp add: pulp_objective [OF assms] a selection_totals)
  qed
  then show "pulp_optimal prob a"
    unfolding pulp_optimal_def
    by (simp add: pulp_feasible_iff [OF assms] pulp_problem_fields [OF assms] a
        selection_totals knapsack_capacity_def)
qed

subsection \<open>Indices, assignments and result lists\<close>

lemma less_7_cases:
  "i < 7 \<Longrightarrow> i = 0 \<or> i = 1 \<or> i = 2 \<or> i = 3 \<or> i = 4 \<or> i = 5 \<or> i = (6::nat)"
  by arith

lemma all_less_7:
  "(\<forall>i<7. P i) \<longleftrightarrow> P 0 \<and> P 1 \<and> P 2 \<and> P 3 \<and> P 4 \<and> P 5 \<and> P (6::nat)"
proof
  assume "\<forall>i<7. P i"
  then show "P 0 \<and> P 1 \<and> P 2 \<and> P 3 \<and> P 4 \<and> P 5 \<and> P 6" by simp
next
  assume h: "P 0 \<and> P 1 \<and> P 2 \<and> P 3 \<and> P 4 \<and> P 5 \<and> P 6"
  show "\<forall>i<7. P i"
  proof (intro allI impI)
    fix i :: nat
    assume "i < 7"
    from less_7_cases [OF this] h show "P i" by (elim disjE) simp_all
  qed
qed

lemma ex_assignment:
  assumes "length x = 7"
  shows "\<exists>a. var_values a = x"
proof -
  from assms obtain x0 x1 x2 x3 x4 x5 x6 where x: "x = [x0, x1, x2, x3, x4, x5, x6]"
    using len7 by blast
  define a where "a = (\<lambda>n. if n = ''x1_Compass'' then x0 else if n = ''x1_Knife'' then x1
      else if n = ''x1_Fire_Starter_Kit'' then x2 else if n = ''x1_Tent'' then x3
      else if n = ''x1_Propane_Cylinder'' then x4 else if n = ''x1_Food'' then x5 else x6)"
  have "var_values a = x" by (simp add: var_values_eq a_def x)
  then show ?thesis by blast
qed

lemma pulp_results_Some:
  "pulp_decision_var_results (\<lambda>n. Some (a n)) = map Some (var_values a)"
  by (simp add: pulp_decision_var_results_def var_values_def)

lemma pulp_items_Some:
  "pulp_items_to_select (map Some xs) = scipy_items_to_select xs"
  by (simp add: pulp_items_to_select_def scipy_items_to_select_def)

subsection \<open>The run of the notebook\<close>

lemma length_pulp_results: "length (pulp_decision_var_results val) = 7"
  by (simp add: pulp_decision_var_results_def x1_decision_var_eq)

lemma DataFrame_items_fields:
  assumes "DataFrame items = Inr df"
  shows "df = [(''Item Id'', IntCol (Item_Id items)),
               (''Item Name'', StrCol (Item_Name items)),
               (''Weight (kg)'', FloatCol (Weight_kg items)),
               (''Relative Value'', IntCol (Relative_Value items))]"
    and "nrows df = 7"
proof -
  from assms have "df =
     [(''Item Id'', IntCol [1, 2, 3, 4, 5, 6, 7]),
      (''Item Name'', StrCol [''Compass'', ''Knife'', ''Fire Starter Kit'', ''Tent'',
                              ''Propane Cylinder'', ''Food'', ''Portable Telescope'']),
      (''Weight (kg)'', FloatCol [0.5, 1.5, 0.4, 1.0, 1.6, 1.1, 0.8]),
      (''Relative Value'', IntCol [6, 5, 4, 4, 3, 4, 1])]"
    by (auto simp add: DataFrame_items_eq)
  then show "df = [(''Item Id'', IntCol (Item_Id items)),
               (''Item Name'', StrCol (Item_Name items)),
               (''Weight (kg)'', FloatCol (Weight_kg items)),
               (''Relative Value'', IntCol (Relative_Value items))]"
    and "nrows df = 7"
    by (simp_all add: items_def nrows_def)
qed

lemma setitem_scipy:
  assumes "DataFrame items = Inr df" and "length bs = 7"
  shows "setitem df ''scipy_items_to_select'' (BoolCol bs)
           = Inr (df @ [(''scipy_items_to_select'', BoolCol bs)])"
  using assms(2) unfolding DataFrame_items_fields(1) [OF assms(1)]
  by (simp add: setitem_def nrows_def items_def)

lemma setitem_pulp:
  assumes "DataFrame items = Inr df" and "length bs = 7"
  shows "setitem (df @ [(''scipy_items_to_select'', BoolCol cs)]) ''pulp_items_to_select''
             (BoolCol bs)
           = Inr (df @ [(''scipy_items_to_select'', BoolCol cs),
                        (''pulp_items_to_select'', BoolCol bs)])"
  using assms(2) unfolding DataFrame_items_fields(1) [OF assms(1)]
  by (simp add: setitem_def nrows_def items_def)

lemma run_notebook_ok:
  assumes "DataFrame items = Inr df" and "length x = 7"
  shows "run_notebook (Some x) val =
     ([df,
       df @ [(''scipy_items_to_select'', BoolCol (scipy_items_to_select x))],
       df @ [(''scipy_items_to_select'', BoolCol (scipy_items_to_select x)),
             (''pulp_items_to_select'',
              BoolCol (pulp_items_to_select (pulp_decision_var_results val)))]],
      None)"
proof -
  have 1: "length (scipy_items_to_select x) = 7"
    by (simp add: scipy_items_to_select_def assms(2))
  have 2: "length (pulp_items_to_select (pulp_decision_var_results val)) = 7"
    by (simp add: pulp_items_to_select_def length_pulp_results)
  have 3: "np_multiply x (Weight_kg items) = Inr (map2 (*) x (Weight_kg items))"
    by (simp add: np_multiply_def assms(2) items_def)
  show ?thesis
    unfolding run_notebook_def
    by (simp add: assms(1) scipy_problem_eq pulp_problem_eq 3
        setitem_scipy [OF assms(1) 1] setitem_pulp [OF assms(1) 2])
qed

lemma run_notebook_fail:
  assumes "DataFrame items = Inr df" and "sol_x = None \<or> (\<exists>x. sol_x = Some x \<and> length x \<noteq> 7)"
  shows "fst (run_notebook sol_x val) = [df] \<and> snd (run_notebook sol_x val) \<noteq> None"
proof (cases sol_x)
  case None
  then show ?thesis
    unfolding run_notebook_def by (simp add: assms(1) scipy_problem_eq)
next
  case (Some x)
  with assms(2) have l: "length x \<noteq> 7" by simp
  have "length (scipy_items_to_select x) \<noteq> nrows df"
    by (simp add: scipy_items_to_select_def DataFrame_items_fields(2) [OF assms(1)] l)
  moreover have "df \<noteq> []"
    using DataFrame_items_fields(1) [OF assms(1)] by simp
  ultimately have "setitem df ''scipy_items_to_select'' (BoolCol (scipy_items_to_select x))
       = Inl ValueError"
    by (simp add: setitem_def)
  then show ?thesis
    unfolding run_notebook_def Some
    by (simp add: assms(1) scipy_problem_eq split: sum.split)
qed


lemma dict_get_two_columns:
  assumes "DataFrame items = Inr df"
  shows "dict_get (df @ [(''scipy_items_to_select'', c1), (''pulp_items_to_select'', c2)])
           ''scipy_items_to_select'' = Inr c1"
    and "dict_get (df @ [(''scipy_items_to_select'', c1), (''pulp_items_to_select'', c2)])
           ''pulp_items_to_select'' = Inr c2"
  unfolding DataFrame_items_fields(1) [OF assms] by simp_all

lemma scipy_items_selection:
  "scipy_items_to_select [1, 1, 1, 1, 0, 1, 0] = [True, True, True, True, False, True, False]"
  by (simp add: scipy_items_to_select_def)

subsection \<open>Columns of the table\<close>

lemma dict_get_append:
  "k \<in> fst ` set d \<Longrightarrow> dict_get (d @ e) k = dict_get d k"
  by (induction d) auto

lemma dict_get_scipy_column:
  assumes "DataFrame items = Inr df"
  shows "dict_get (df @ (''scipy_items_to_select'', c1) # e) ''scipy_items_to_select'' = Inr c1"
  unfolding DataFrame_items_fields(1) [OF assms] by simp

subsection \<open>The declared variables\<close>

lemma binary_nth: "binary x \<longleftrightarrow> (\<forall>i<length x. x ! i = 0 \<or> x ! i = 1)"
  by (simp add: binary_def list_all_length)

lemma x1_decision_var_declared:
  "x1_decision_var =
     map (\<lambda>i. (i, LpVariable_init (''x1_'' @ i) (Some 0) (Some 1) LpBinary)) (Item_Name items)"
  unfolding x1_decision_var_eq
  by (simp add: items_def LpVariable_init_def translate_def binary_var_def)

lemma variables_explicit:
  assumes "pulp_problem = Inr prob"
  shows "variables prob =
     [binary_var ''x1_Compass'', binary_var ''x1_Knife'', binary_var ''x1_Fire_Starter_Kit'',
      binary_var ''x1_Tent'', binary_var ''x1_Propane_Cylinder'', binary_var ''x1_Food'',
      binary_var ''x1_Portable_Telescope'']"
  by (simp add: pulp_variables [OF assms] x1_decision_var_eq)

section \<open>Properties of the specification\<close>

text \<open>
  C1. For the dataset of the notebook, the selection \<open>(1,1,1,1,0,1,0)\<close> (Compass, Knife,
  Fire Starter Kit, Tent, Food) is an optimal knapsack solution: its total value is 23,
  its total weight is 4.5, which is at most the capacity 5, and every 0/1 vector of
  length seven whose total weight is at most the capacity has a total value of at most 23.
\<close>

theorem selection_is_optimal:
  "total_value [1, 1, 1, 1, 0, 1, 0] = 23 \<and>
   total_weight [1, 1, 1, 1, 0, 1, 0] = 4.5 \<and>
   total_weight [1, 1, 1, 1, 0, 1, 0] \<le> knapsack_capacity \<and>
   knapsack_capacity = 5 \<and>
   (\<forall>x. length x = 7 \<and> binary x \<and> total_weight x \<le> knapsack_capacity
          \<longrightarrow> total_value x \<le> 23)"
  using knapsack_core
  by (simp add: selection_totals selection_feasible) (simp add: knapsack_capacity_def)

theorem selection_is_optimal_witness:
  "length [1, 0, 0, 0, 1, 1, 1 :: real] = 7 \<and> binary [1, 0, 0, 0, 1, 1, 1] \<and>
   total_weight [1, 0, 0, 0, 1, 1, 1] = 4 \<and> 4 \<le> knapsack_capacity \<and>
   total_value [1, 0, 0, 0, 1, 1, 1] = 14 \<and> total_value [1, 0, 0, 0, 1, 1, 1] \<le> 23"
proof -
  have h: "length [1, 0, 0, 0, 1, 1, 1 :: real] = 7 \<and> binary [1, 0, 0, 0, 1, 1, 1] \<and>
      total_weight [1, 0, 0, 0, 1, 1, 1] \<le> knapsack_capacity"
    by (simp add: binary_def totals_explicit knapsack_capacity_def)
  from selection_is_optimal have "total_value [1, 0, 0, 0, 1, 1, 1] \<le> 23"
    using h by blast
  then show ?thesis
    by (simp add: binary_def totals_explicit knapsack_capacity_def)
qed

text \<open>
  C8. The optimal selection is unique: \<open>(1,1,1,1,0,1,0)\<close> is the only 0/1 vector within
  the capacity whose total value is 23, every other one has a strictly smaller total
  value, and so whatever optimal solutions the two solvers return are this same vector.
\<close>

theorem optimal_selection_unique:
  "(\<forall>x. length x = 7 \<and> binary x \<and> total_weight x \<le> knapsack_capacity \<and> total_value x = 23
         \<longrightarrow> x = [1, 1, 1, 1, 0, 1, 0]) \<and>
   (\<forall>x. length x = 7 \<and> binary x \<and> total_weight x \<le> knapsack_capacity \<and> x \<noteq> [1, 1, 1, 1, 0, 1, 0]
         \<longrightarrow> total_value x < 23) \<and>
   (\<forall>P prob x a. scipy_problem = Inr P \<and> pulp_problem = Inr prob \<and>
        milp_optimal P x \<and> pulp_optimal prob a
         \<longrightarrow> x = [1, 1, 1, 1, 0, 1, 0] \<and> var_values a = x)"
proof (intro conjI allI impI)
  fix x
  assume "length x = 7 \<and> binary x \<and> total_weight x \<le> knapsack_capacity \<and> total_value x = 23"
  then show "x = [1, 1, 1, 1, 0, 1, 0]" using knapsack_core [of x] by simp
next
  fix x
  assume h: "length x = 7 \<and> binary x \<and> total_weight x \<le> knapsack_capacity \<and>
    x \<noteq> [1, 1, 1, 1, 0, 1, 0]"
  then have "total_value x \<le> 23" "total_value x \<noteq> 23" using knapsack_core [of x] by auto
  then show "total_value x < 23" by simp
next
  fix P prob x a
  assume h: "scipy_problem = Inr P \<and> pulp_problem = Inr prob \<and>
        milp_optimal P x \<and> pulp_optimal prob a"
  then have sp: "scipy_problem = Inr P" and pp: "pulp_problem = Inr prob"
    and ox: "milp_optimal P x" and oa: "pulp_optimal prob a"
    by simp_all
  from ox show x: "x = [1, 1, 1, 1, 0, 1, 0]" by (simp only: milp_optimal_iff [OF sp])
  from oa show "var_values a = x" by (simp only: pulp_optimal_iff [OF pp] x)
qed

theorem optimal_selection_unique_witness:
  "length [1, 1, 1, 1, 0, 0, 1 :: real] = 7 \<and> binary [1, 1, 1, 1, 0, 0, 1] \<and>
   total_weight [1, 1, 1, 1, 0, 0, 1] \<le> knapsack_capacity \<and>
   [1, 1, 1, 1, 0, 0, 1] \<noteq> [1, 1, 1, 1, 0, 1, 0 :: real] \<and>
   total_value [1, 1, 1, 1, 0, 0, 1] = 20 \<and> total_value [1, 1, 1, 1, 0, 0, 1] < 23"
proof -
  have h: "length [1, 1, 1, 1, 0, 0, 1 :: real] = 7 \<and> binary [1, 1, 1, 1, 0, 0, 1] \<and>
      total_weight [1, 1, 1, 1, 0, 0, 1] \<le> knapsack_capacity \<and>
      [1, 1, 1, 1, 0, 0, 1] \<noteq> [1, 1, 1, 1, 0, 1, 0 :: real]"
    by (simp add: binary_def totals_explicit knapsack_capacity_def)
  have "total_value [1, 1, 1, 1, 0, 0, 1] < 23"
    by (rule optimal_selection_unique [THEN conjunct2, THEN conjunct1, rule_format, OF h])
  then show ?thesis
    by (simp add: binary_def totals_explicit knapsack_capacity_def)
qed


text \<open>
  C9. The lower bound 0 that the SciPy model puts on the weight constraint excludes
  nothing: all weights and all lower bounds of the variables are nonnegative, so the
  weighted sum of any vector above the lower bounds is nonnegative; the feasible set of
  the SciPy model is the one given by the variable bounds, integrality and the capacity
  alone, it does not change when the lower bound is lowered, and it is the feasible set
  of the PuLP model.
\<close>

theorem weight_lower_bound_redundant:
  assumes "scipy_problem = Inr P"
  shows "con_lb (milp_constraints P) = 0 \<and>
    con_ub (milp_constraints P) = knapsack_capacity \<and>
    A (milp_constraints P) = Weight_kg items \<and>
    list_all (\<lambda>w. 0 \<le> w) (Weight_kg items) \<and>
    list_all (\<lambda>l. 0 \<le> l) (lb (milp_bounds P)) \<and>
    (\<forall>x. list_all2 (\<le>) (lb (milp_bounds P)) x \<longrightarrow> 0 \<le> dot (A (milp_constraints P)) x) \<and>
    (\<forall>x. milp_feasible P x \<longleftrightarrow>
       vars_ok (milp_integrality P) (lb (milp_bounds P)) (ub (milp_bounds P)) x \<and>
       dot (Weight_kg items) x \<le> knapsack_capacity) \<and>
    (\<forall>l x. l \<le> 0 \<longrightarrow>
       milp_feasible (P\<lparr> milp_constraints := (milp_constraints P)\<lparr> con_lb := l \<rparr> \<rparr>) x
         = milp_feasible P x) \<and>
    (\<forall>prob a. pulp_problem = Inr prob \<longrightarrow>
       pulp_feasible prob a = milp_feasible P (var_values a))"
proof -
  note P = scipy_problem_fields [OF assms]
  have nonneg: "0 \<le> dot (A (milp_constraints P)) x" if "list_all2 (\<le>) (lb (milp_bounds P)) x" for x
  proof -
    from that have "length x = 7" by (auto simp add: P dest: list_all2_lengthD)
    then obtain a b c d e f g where x: "x = [a, b, c, d, e, f, g]" using len7 by blast
    from that have "list_all (\<lambda>v. 0 \<le> v) x" by (simp add: P x)
    with weights_nonneg have "0 \<le> dot (Weight_kg items) x" by (rule dot_nonneg)
    then show ?thesis by (simp add: P items_def)
  qed
  have vb: "vars_ok (milp_integrality P) (lb (milp_bounds P)) (ub (milp_bounds P)) x
      \<longleftrightarrow> length x = 7 \<and> binary x" for x
    unfolding P by (rule vars_ok_binary7)
  have feas: "milp_feasible P x \<longleftrightarrow>
       vars_ok (milp_integrality P) (lb (milp_bounds P)) (ub (milp_bounds P)) x \<and>
       dot (Weight_kg items) x \<le> knapsack_capacity" for x
    unfolding vb milp_feasible_iff [OF assms] total_weight_def by blast
  have low: "milp_feasible (P\<lparr> milp_constraints := (milp_constraints P)\<lparr> con_lb := l \<rparr> \<rparr>) x
         = milp_feasible P x" if "l \<le> 0" for l x
  proof -
    have "binary x \<Longrightarrow> 0 \<le> dot (Weight_kg items) x"
      by (intro dot_nonneg weights_nonneg binary_nonneg)
    then have "vars_ok (milp_integrality P) (lb (milp_bounds P)) (ub (milp_bounds P)) x
       \<Longrightarrow> l \<le> dot (A (milp_constraints P)) x \<and> 0 \<le> dot (A (milp_constraints P)) x"
      using that unfolding vb by (simp add: P items_def)
    then show ?thesis
      unfolding milp_feasible_def by (auto simp add: P(5))
  qed
  have pulp: "pulp_feasible prob a = milp_feasible P (var_values a)"
    if "pulp_problem = Inr prob" for prob a
    by (simp add: pulp_feasible_iff [OF that] milp_feasible_iff [OF assms] length_var_values)
  have 1: "con_lb (milp_constraints P) = 0" by (rule P)
  have 2: "con_ub (milp_constraints P) = knapsack_capacity"
    by (simp add: P knapsack_capacity_def)
  have 3: "A (milp_constraints P) = Weight_kg items" by (simp add: P items_def)
  have 4: "list_all (\<lambda>l. 0 \<le> l) (lb (milp_bounds P))" by (simp add: P)
  from 1 2 3 weights_nonneg 4 nonneg feas low pulp show ?thesis by blast
qed


theorem weight_lower_bound_redundant_witness:
  "\<exists>P prob. scipy_problem = Inr P \<and> pulp_problem = Inr prob \<and>
     list_all2 (\<le>) (lb (milp_bounds P)) [0.5, 0, 2, 1, 0, 0.25, 3] \<and>
     0 \<le> dot (A (milp_constraints P)) [0.5, 0, 2, 1, 0, 0.25, 3] \<and>
     (-3::real) \<le> 0 \<and>
     milp_feasible (P\<lparr> milp_constraints := (milp_constraints P)\<lparr> con_lb := -3 \<rparr> \<rparr>)
       [1, 1, 1, 1, 0, 1, 0] \<and>
     milp_feasible P [1, 1, 1, 1, 0, 1, 0] \<and>
     pulp_feasible prob chosen"
proof -
  obtain P where sp: "scipy_problem = Inr P" by (simp add: scipy_problem_eq)
  obtain prob where pp: "pulp_problem = Inr prob" by (simp add: pulp_problem_eq)
  note T = weight_lower_bound_redundant [OF sp]
  have b: "list_all2 (\<le>) (lb (milp_bounds P)) [0.5, 0, 2, 1, 0, 0.25, 3]"
    by (simp add: scipy_problem_fields [OF sp])
  have f: "milp_feasible P [1, 1, 1, 1, 0, 1, 0]"
    by (simp add: milp_feasible_iff [OF sp] selection_totals knapsack_capacity_def)
  have l: "(-3::real) \<le> 0" by simp
  from T b have 1: "0 \<le> dot (A (milp_constraints P)) [0.5, 0, 2, 1, 0, 0.25, 3]"
    by blast
  from T l f
  have 2: "milp_feasible (P\<lparr> milp_constraints := (milp_constraints P)\<lparr> con_lb := -3 \<rparr> \<rparr>)
       [1, 1, 1, 1, 0, 1, 0]"
    by blast
  from T pp f have 3: "pulp_feasible prob chosen"
    by (simp add: var_values_chosen)
  from sp pp b 1 l 2 f 3 show ?thesis by blast
qed

text \<open>
  C2. The SciPy model and the PuLP model are equivalent formulations. The PuLP objective
  (maximised) is the negated SciPy objective (minimised), the feasible sets agree, so an
  assignment is optimal for PuLP exactly when its vector is optimal for SciPy, and every
  vector of length seven is the vector of an assignment. Optimal solutions exist; the
  optimal objective values are \<open>-23\<close> and \<open>23\<close>; and whenever the SciPy run returns an
  optimal vector and the PuLP run an optimal assignment, both give the same selection, so
  the columns \<^verbatim>\<open>scipy_items_to_select\<close> and \<^verbatim>\<open>pulp_items_to_select\<close> of the final table
  are equal.
\<close>

theorem models_equivalent:
  assumes "scipy_problem = Inr P" and "pulp_problem = Inr prob"
  shows "sense prob = LpMaximize \<and>
    (\<forall>a. expr_value (objective prob) a = - dot (milp_c P) (var_values a)) \<and>
    (\<forall>a. pulp_feasible prob a = milp_feasible P (var_values a)) \<and>
    (\<forall>a. pulp_optimal prob a = milp_optimal P (var_values a)) \<and>
    (\<forall>x. length x = 7 \<longrightarrow> (\<exists>a. var_values a = x)) \<and>
    (\<exists>x. milp_optimal P x) \<and> (\<exists>a. pulp_optimal prob a) \<and>
    (\<forall>x a. milp_optimal P x \<and> pulp_optimal prob a \<longrightarrow>
       dot (milp_c P) x = - 23 \<and> expr_value (objective prob) a = 23 \<and>
       var_values a = x \<and>
       pulp_decision_var_results (\<lambda>n. Some (a n)) = map Some x \<and>
       pulp_items_to_select (pulp_decision_var_results (\<lambda>n. Some (a n)))
         = scipy_items_to_select x \<and>
       (\<exists>df df1 df2 col. run_notebook (Some x) (\<lambda>n. Some (a n)) = ([df, df1, df2], None) \<and>
          dict_get df2 ''scipy_items_to_select'' = Inr col \<and>
          dict_get df2 ''pulp_items_to_select'' = Inr col \<and>
          col = BoolCol [True, True, True, True, False, True, False]))"
proof -
  note sp = assms(1) and pp = assms(2)
  have obj: "expr_value (objective prob) a = - dot (milp_c P) (var_values a)" for a
    by (simp add: pulp_objective [OF pp] milp_objective [OF sp])
  have feas: "pulp_feasible prob a = milp_feasible P (var_values a)" for a
    by (simp add: pulp_feasible_iff [OF pp] milp_feasible_iff [OF sp] length_var_values)
  have opt: "pulp_optimal prob a = milp_optimal P (var_values a)" for a
    by (simp only: pulp_optimal_iff [OF pp] milp_optimal_iff [OF sp])
  have ex1: "\<exists>x. milp_optimal P x"
    by (simp add: milp_optimal_iff [OF sp])
  have "pulp_optimal prob chosen"
    by (simp only: pulp_optimal_iff [OF pp] var_values_chosen)
  then have ex2: "\<exists>a. pulp_optimal prob a" by blast
  have both: "dot (milp_c P) x = - 23 \<and> expr_value (objective prob) a = 23 \<and>
       var_values a = x \<and>
       pulp_decision_var_results (\<lambda>n. Some (a n)) = map Some x \<and>
       pulp_items_to_select (pulp_decision_var_results (\<lambda>n. Some (a n)))
         = scipy_items_to_select x \<and>
       (\<exists>df df1 df2 col. run_notebook (Some x) (\<lambda>n. Some (a n)) = ([df, df1, df2], None) \<and>
          dict_get df2 ''scipy_items_to_select'' = Inr col \<and>
          dict_get df2 ''pulp_items_to_select'' = Inr col \<and>
          col = BoolCol [True, True, True, True, False, True, False])"
    if h: "milp_optimal P x \<and> pulp_optimal prob a" for x a
  proof -
    from h have x: "x = [1, 1, 1, 1, 0, 1, 0]" by (simp only: milp_optimal_iff [OF sp])
    from h have a: "var_values a = x" by (simp only: pulp_optimal_iff [OF pp] x)
    have 1: "dot (milp_c P) x = - 23"
      by (simp add: milp_objective [OF sp] x selection_totals)
    have 2: "expr_value (objective prob) a = 23"
      by (simp add: pulp_objective [OF pp] a x selection_totals)
    have 3: "pulp_decision_var_results (\<lambda>n. Some (a n)) = map Some x"
      by (simp only: pulp_results_Some a)
    have 4: "pulp_items_to_select (pulp_decision_var_results (\<lambda>n. Some (a n)))
         = scipy_items_to_select x"
      by (simp only: 3 pulp_items_Some)
    obtain df where df: "DataFrame items = Inr df" by (simp add: DataFrame_items_eq)
    have "length x = 7" by (simp add: x)
    note run = run_notebook_ok [OF df this, of "\<lambda>n. Some (a n)", unfolded 4]
    define col where "col = BoolCol (scipy_items_to_select x)"
    define df2 where "df2 = df @ [(''scipy_items_to_select'', col), (''pulp_items_to_select'', col)]"
    have r: "run_notebook (Some x) (\<lambda>n. Some (a n))
        = ([df, df @ [(''scipy_items_to_select'', col)], df2], None)"
      unfolding run df2_def col_def ..
    have c1: "dict_get df2 ''scipy_items_to_select'' = Inr col"
      unfolding df2_def by (rule dict_get_two_columns(1) [OF df])
    have c2: "dict_get df2 ''pulp_items_to_select'' = Inr col"
      unfolding df2_def by (rule dict_get_two_columns(2) [OF df])
    have c3: "col = BoolCol [True, True, True, True, False, True, False]"
      unfolding col_def x scipy_items_selection ..
    from r c1 c2 c3
    have 5: "\<exists>df df1 df2 col. run_notebook (Some x) (\<lambda>n. Some (a n)) = ([df, df1, df2], None) \<and>
          dict_get df2 ''scipy_items_to_select'' = Inr col \<and>
          dict_get df2 ''pulp_items_to_select'' = Inr col \<and>
          col = BoolCol [True, True, True, True, False, True, False]"
      by blast
    from 1 2 a 3 4 5 show ?thesis by blast
  qed
  from pulp_problem_fields(1) [OF pp] obj feas opt ex_assignment ex1 ex2 both
  show ?thesis by blast
qed


theorem models_equivalent_witness:
  "\<exists>P prob. scipy_problem = Inr P \<and> pulp_problem = Inr prob \<and>
     milp_optimal P [1, 1, 1, 1, 0, 1, 0] \<and> pulp_optimal prob chosen \<and>
     dot (milp_c P) [1, 1, 1, 1, 0, 1, 0] = - 23 \<and>
     expr_value (objective prob) chosen = 23 \<and>
     var_values chosen = [1, 1, 1, 1, 0, 1, 0] \<and>
     pulp_items_to_select (pulp_decision_var_results (\<lambda>n. Some (chosen n)))
       = scipy_items_to_select [1, 1, 1, 1, 0, 1, 0]"
proof -
  obtain P where sp: "scipy_problem = Inr P" by (simp add: scipy_problem_eq)
  obtain prob where pp: "pulp_problem = Inr prob" by (simp add: pulp_problem_eq)
  have ox: "milp_optimal P [1, 1, 1, 1, 0, 1, 0]"
    by (simp only: milp_optimal_iff [OF sp])
  have oa: "pulp_optimal prob chosen"
    by (simp only: pulp_optimal_iff [OF pp] var_values_chosen)
  note T = models_equivalent [OF sp pp, THEN conjunct2, THEN conjunct2, THEN conjunct2,
      THEN conjunct2, THEN conjunct2, THEN conjunct2, THEN conjunct2, rule_format,
      OF conjI, OF ox oa]
  from sp pp ox oa T show ?thesis by blast
qed

text \<open>
  C6. Every decision variable of both models is binary. The SciPy model has seven
  variables, each with lower bound 0, upper bound 1 and integrality 1, so every entry of
  a feasible vector is 0 or 1. The PuLP model declares one variable per item with
  \<open>lowBound\<close> 0, \<open>upBound\<close> 1 and category \<open>LpBinary\<close>, which PuLP stores as an
  integer variable with bounds 0 and 1; these seven are the variables of the problem, and
  a feasible assignment gives each of them 0 or 1.
\<close>

theorem decision_variables_binary:
  assumes "scipy_problem = Inr P" and "pulp_problem = Inr prob"
  shows "length (milp_c P) = 7 \<and>
    lb (milp_bounds P) = replicate 7 0 \<and>
    ub (milp_bounds P) = replicate 7 1 \<and>
    milp_integrality P = replicate 7 1 \<and>
    (\<forall>x. milp_feasible P x \<longrightarrow> length x = 7 \<and> (\<forall>i<7. x ! i = 0 \<or> x ! i = 1)) \<and>
    x1_decision_var =
      map (\<lambda>i. (i, LpVariable_init (''x1_'' @ i) (Some 0) (Some 1) LpBinary)) (Item_Name items) \<and>
    variables prob = map snd x1_decision_var \<and>
    length (variables prob) = 7 \<and>
    (\<forall>v\<in>set (variables prob). lowBound v = Some 0 \<and> upBound v = Some 1 \<and> cat v = LpInteger) \<and>
    (\<forall>a. pulp_feasible prob a \<longrightarrow>
       (\<forall>v\<in>set (variables prob). a (var_name v) = 0 \<or> a (var_name v) = 1))"
proof -
  note sp = assms(1) and pp = assms(2)
  note P = scipy_problem_fields [OF sp]
  have 1: "length (milp_c P) = 7" by (simp add: P)
  have 2: "lb (milp_bounds P) = replicate 7 0" by (simp add: P eval_nat_numeral)
  have 3: "ub (milp_bounds P) = replicate 7 1" by (simp add: P eval_nat_numeral)
  have 4: "milp_integrality P = replicate 7 1" by (simp add: P eval_nat_numeral)
  have 5: "length x = 7 \<and> (\<forall>i<7. x ! i = 0 \<or> x ! i = 1)" if "milp_feasible P x" for x
  proof -
    from that have "length x = 7" "binary x" by (simp_all add: milp_feasible_iff [OF sp])
    then show ?thesis by (simp add: binary_nth)
  qed
  have 7: "variables prob = map snd x1_decision_var" by (rule pulp_variables [OF pp])
  have 8: "length (variables prob) = 7" by (simp add: variables_explicit [OF pp])
  have 9: "\<forall>v\<in>set (variables prob). lowBound v = Some 0 \<and> upBound v = Some 1 \<and> cat v = LpInteger"
    by (simp add: variables_explicit [OF pp] binary_var_def)
  have 10: "\<forall>v\<in>set (variables prob). a (var_name v) = 0 \<or> a (var_name v) = 1"
    if "pulp_feasible prob a" for a
  proof -
    from that have "list_all (\<lambda>v. lpvar_ok v (a (var_name v))) (variables prob)"
      by (simp add: pulp_feasible_def)
    then show ?thesis
      unfolding variables_explicit [OF pp] by (simp add: lpvar_ok_binary_var)
  qed
  from 1 2 3 4 5 x1_decision_var_declared 7 8 9 10 show ?thesis by blast
qed

theorem decision_variables_binary_witness:
  "\<exists>P prob. scipy_problem = Inr P \<and> pulp_problem = Inr prob \<and>
     milp_feasible P [1, 0, 0, 1, 0, 1, 1] \<and>
     ([1, 0, 0, 1, 0, 1, 1] ! 4 = (0::real) \<or> [1, 0, 0, 1, 0, 1, 1] ! 4 = (1::real)) \<and>
     pulp_feasible prob chosen \<and>
     binary_var ''x1_Food'' \<in> set (variables prob) \<and>
     (chosen ''x1_Food'' = 0 \<or> chosen ''x1_Food'' = 1)"
proof -
  obtain P where sp: "scipy_problem = Inr P" by (simp add: scipy_problem_eq)
  obtain prob where pp: "pulp_problem = Inr prob" by (simp add: pulp_problem_eq)
  note T = decision_variables_binary [OF sp pp]
  have f: "milp_feasible P [1, 0, 0, 1, 0, 1, 1]"
    by (simp add: milp_feasible_iff [OF sp] binary_def totals_explicit knapsack_capacity_def)
  have i: "(4::nat) < 7" by simp
  from T f i have 1: "[1, 0, 0, 1, 0, 1, 1] ! 4 = (0::real) \<or> [1, 0, 0, 1, 0, 1, 1] ! 4 = (1::real)"
    by blast
  have g: "pulp_feasible prob chosen"
    by (simp add: pulp_feasible_iff [OF pp] var_values_chosen selection_totals
        knapsack_capacity_def)
  have m: "binary_var ''x1_Food'' \<in> set (variables prob)"
    by (simp add: variables_explicit [OF pp])
  from T g m have 2: "chosen (var_name (binary_var ''x1_Food'')) = 0
      \<or> chosen (var_name (binary_var ''x1_Food'')) = 1"
    by blast
  then have 3: "chosen ''x1_Food'' = 0 \<or> chosen ''x1_Food'' = 1"
    by (simp add: binary_var_def)
  from sp pp f 1 g m 3 show ?thesis by blast
qed


text \<open>
  C5. The items table consists of parallel arrays of equal length: the four lists of
  \<open>items\<close> have seven entries each, so the DataFrame is built, and all its columns have
  seven rows. Both models pair the entries by position. In the SciPy model the objective,
  the constraint row, the bounds and the integrality have seven entries, and entry \<open>i\<close>
  of the objective and of the constraint row is the negated value and the weight of item
  \<open>i\<close>. In the PuLP model the \<open>i\<close>-th variable is the one created for the \<open>i\<close>-th
  item name, the dicts \<open>weights\<close> and \<open>relative_values\<close> map that name to the
  \<open>i\<close>-th weight and value (the names are distinct), the \<open>i\<close>-th term of the objective
  and of the constraint is that variable with that value and weight, and the \<open>i\<close>-th
  entry of the result list is the value of that variable.
\<close>

theorem parallel_arrays_positional:
  "length (Item_Id items) = 7 \<and> length (Item_Name items) = 7 \<and>
   length (Weight_kg items) = 7 \<and> length (Relative_Value items) = 7 \<and>
   distinct (Item_Name items) \<and>
   (\<exists>df. DataFrame items = Inr df \<and> list_all (\<lambda>kc. col_len (snd kc) = 7) df) \<and>
   (\<exists>P. scipy_problem = Inr P \<and>
      length (milp_c P) = 7 \<and> length (A (milp_constraints P)) = 7 \<and>
      length (lb (milp_bounds P)) = 7 \<and> length (ub (milp_bounds P)) = 7 \<and>
      length (milp_integrality P) = 7 \<and>
      (\<forall>i<7. milp_c P ! i = - real_of_int (Relative_Value items ! i) \<and>
              A (milp_constraints P) ! i = Weight_kg items ! i)) \<and>
   length x1_decision_var = 7 \<and> length weights = 7 \<and> length relative_values = 7 \<and>
   distinct (map (\<lambda>kv. var_name (snd kv)) x1_decision_var) \<and>
   (\<exists>prob c. pulp_problem = Inr prob \<and> constraints prob = [c] \<and>
      length (objective prob) = 7 \<and> length (con_expr c) = 7 \<and>
      (\<forall>i<7. fst (x1_decision_var ! i) = Item_Name items ! i \<and>
              var_name (snd (x1_decision_var ! i)) = translate (''x1_'' @ Item_Name items ! i) \<and>
              weights ! i = (Item_Name items ! i, Weight_kg items ! i) \<and>
              relative_values ! i = (Item_Name items ! i, real_of_int (Relative_Value items ! i)) \<and>
              objective prob ! i
                = (snd (x1_decision_var ! i), real_of_int (Relative_Value items ! i)) \<and>
              con_expr c ! i = (snd (x1_decision_var ! i), Weight_kg items ! i))) \<and>
   (\<forall>val. length (pulp_decision_var_results val) = 7 \<and>
      (\<forall>i<7. pulp_decision_var_results val ! i = val (var_name (snd (x1_decision_var ! i)))))"
proof -
  have 1: "length (Item_Id items) = 7 \<and> length (Item_Name items) = 7 \<and>
   length (Weight_kg items) = 7 \<and> length (Relative_Value items) = 7 \<and>
   distinct (Item_Name items)"
    by (simp add: items_def)
  have 2: "\<exists>df. DataFrame items = Inr df \<and> list_all (\<lambda>kc. col_len (snd kc) = 7) df"
    by (simp add: DataFrame_items_eq)
  obtain P where sp: "scipy_problem = Inr P" by (simp add: scipy_problem_eq)
  note P = scipy_problem_fields [OF sp]
  have "length (milp_c P) = 7 \<and> length (A (milp_constraints P)) = 7 \<and>
      length (lb (milp_bounds P)) = 7 \<and> length (ub (milp_bounds P)) = 7 \<and>
      length (milp_integrality P) = 7 \<and>
      (\<forall>i<7. milp_c P ! i = - real_of_int (Relative_Value items ! i) \<and>
              A (milp_constraints P) ! i = Weight_kg items ! i)"
    unfolding all_less_7 by (simp add: P items_def)
  with sp have 3: "\<exists>P. scipy_problem = Inr P \<and>
      length (milp_c P) = 7 \<and> length (A (milp_constraints P)) = 7 \<and>
      length (lb (milp_bounds P)) = 7 \<and> length (ub (milp_bounds P)) = 7 \<and>
      length (milp_integrality P) = 7 \<and>
      (\<forall>i<7. milp_c P ! i = - real_of_int (Relative_Value items ! i) \<and>
              A (milp_constraints P) ! i = Weight_kg items ! i)"
    by blast
  have 4: "length x1_decision_var = 7 \<and> length weights = 7 \<and> length relative_values = 7 \<and>
   distinct (map (\<lambda>kv. var_name (snd kv)) x1_decision_var)"
    by (simp add: x1_decision_var_eq weights_eq relative_values_eq binary_var_def)
  obtain prob where pp: "pulp_problem = Inr prob" by (simp add: pulp_problem_eq)
  note Q = pulp_problem_fields [OF pp]
  obtain c where c: "constraints prob = [c]" by (simp add: Q)
  then have ce: "con_expr c =
            [(binary_var ''x1_Compass'', 0.5), (binary_var ''x1_Knife'', 1.5),
             (binary_var ''x1_Fire_Starter_Kit'', 0.4), (binary_var ''x1_Tent'', 1.0),
             (binary_var ''x1_Propane_Cylinder'', 1.6), (binary_var ''x1_Food'', 1.1),
             (binary_var ''x1_Portable_Telescope'', 0.8)]"
    by (auto simp add: Q)
  have "length (objective prob) = 7 \<and> length (con_expr c) = 7 \<and>
      (\<forall>i<7. fst (x1_decision_var ! i) = Item_Name items ! i \<and>
              var_name (snd (x1_decision_var ! i)) = translate (''x1_'' @ Item_Name items ! i) \<and>
              weights ! i = (Item_Name items ! i, Weight_kg items ! i) \<and>
              relative_values ! i = (Item_Name items ! i, real_of_int (Relative_Value items ! i)) \<and>
              objective prob ! i
                = (snd (x1_decision_var ! i), real_of_int (Relative_Value items ! i)) \<and>
              con_expr c ! i = (snd (x1_decision_var ! i), Weight_kg items ! i))"
    unfolding all_less_7
    by (simp add: Q(2) ce x1_decision_var_eq weights_eq relative_values_eq items_def
        translate_def binary_var_def)
  with pp c have 5: "\<exists>prob c. pulp_problem = Inr prob \<and> constraints prob = [c] \<and>
      length (objective prob) = 7 \<and> length (con_expr c) = 7 \<and>
      (\<forall>i<7. fst (x1_decision_var ! i) = Item_Name items ! i \<and>
              var_name (snd (x1_decision_var ! i)) = translate (''x1_'' @ Item_Name items ! i) \<and>
              weights ! i = (Item_Name items ! i, Weight_kg items ! i) \<and>
              relative_values ! i = (Item_Name items ! i, real_of_int (Relative_Value items ! i)) \<and>
              objective prob ! i
                = (snd (x1_decision_var ! i), real_of_int (Relative_Value items ! i)) \<and>
              con_expr c ! i = (snd (x1_decision_var ! i), Weight_kg items ! i))"
    by blast
  have 6: "\<forall>val. length (pulp_decision_var_results val) = 7 \<and>
      (\<forall>i<7. pulp_decision_var_results val ! i = val (var_name (snd (x1_decision_var ! i))))"
    unfolding all_less_7 by (simp add: pulp_decision_var_results_def x1_decision_var_eq)
  from 1 2 3 4 5 6 show ?thesis by blast
qed


theorem parallel_arrays_positional_witness:
  "\<exists>P. scipy_problem = Inr P \<and> (2::nat) < 7 \<and>
     milp_c P ! 2 = - 4 \<and> A (milp_constraints P) ! 2 = 0.4 \<and>
     Item_Name items ! 2 = ''Fire Starter Kit'' \<and>
     pulp_decision_var_results (\<lambda>n. if n = ''x1_Fire_Starter_Kit'' then Some 1 else None) ! 2
       = Some 1"
proof -
  from parallel_arrays_positional obtain P where sp: "scipy_problem = Inr P"
    and al: "\<forall>i<7. milp_c P ! i = - real_of_int (Relative_Value items ! i) \<and>
              A (milp_constraints P) ! i = Weight_kg items ! i"
    by blast
  from parallel_arrays_positional
  have r: "\<forall>val. \<forall>i<7.
      pulp_decision_var_results val ! i = val (var_name (snd (x1_decision_var ! i)))"
    by blast
  have i: "(2::nat) < 7" by simp
  from al i have "milp_c P ! 2 = - real_of_int (Relative_Value items ! 2) \<and>
      A (milp_constraints P) ! 2 = Weight_kg items ! 2"
    by blast
  then have 1: "milp_c P ! 2 = - 4 \<and> A (milp_constraints P) ! 2 = 0.4"
    by (simp add: items_def)
  have 2: "Item_Name items ! 2 = ''Fire Starter Kit''" by (simp add: items_def)
  from r i
  have "pulp_decision_var_results (\<lambda>n. if n = ''x1_Fire_Starter_Kit'' then Some 1 else None) ! 2
      = (\<lambda>n. if n = ''x1_Fire_Starter_Kit'' then Some 1 else None)
          (var_name (snd (x1_decision_var ! 2)))"
    by blast
  then have 3:
    "pulp_decision_var_results (\<lambda>n. if n = ''x1_Fire_Starter_Kit'' then Some 1 else None) ! 2
       = Some 1"
    by (simp add: x1_decision_var_eq binary_var_def)
  from sp i 1 2 3 show ?thesis by blast
qed

text \<open>
  C3. The formatting step maps the returned solution vector to a boolean column entry by
  entry: the column has as many entries as the vector, and entry \<open>i\<close> is \<open>True\<close>
  exactly when the \<open>i\<close>-th value equals 1, for the SciPy vector and for the list of PuLP
  values alike; any other value, a fraction or a missing value included, gives \<open>False\<close>.
  With a solution vector of seven entries the run appends exactly these two columns to the
  table, under the names \<^verbatim>\<open>scipy_items_to_select\<close> and \<^verbatim>\<open>pulp_items_to_select\<close>.
\<close>

theorem items_to_select_entrywise:
  "length (scipy_items_to_select sol_x) = length sol_x \<and>
   (\<forall>i<length sol_x. scipy_items_to_select sol_x ! i = (sol_x ! i = 1)) \<and>
   length (pulp_items_to_select results) = length results \<and>
   (\<forall>i<length results. pulp_items_to_select results ! i = (results ! i = Some 1)) \<and>
   (\<forall>df val. DataFrame items = Inr df \<and> length sol_x = 7 \<longrightarrow>
      (\<exists>df1 df2. run_notebook (Some sol_x) val = ([df, df1, df2], None) \<and>
         df1 = df @ [(''scipy_items_to_select'', BoolCol (scipy_items_to_select sol_x))] \<and>
         df2 = df1 @ [(''pulp_items_to_select'',
                       BoolCol (pulp_items_to_select (pulp_decision_var_results val)))] \<and>
         dict_get df1 ''scipy_items_to_select'' = Inr (BoolCol (scipy_items_to_select sol_x)) \<and>
         dict_get df2 ''scipy_items_to_select'' = Inr (BoolCol (scipy_items_to_select sol_x)) \<and>
         dict_get df2 ''pulp_items_to_select''
           = Inr (BoolCol (pulp_items_to_select (pulp_decision_var_results val)))))"
proof -
  have 1: "length (scipy_items_to_select sol_x) = length sol_x"
    by (simp add: scipy_items_to_select_def)
  have 2: "\<forall>i<length sol_x. scipy_items_to_select sol_x ! i = (sol_x ! i = 1)"
    by (simp add: scipy_items_to_select_def)
  have 3: "length (pulp_items_to_select results) = length results"
    by (simp add: pulp_items_to_select_def)
  have 4: "\<forall>i<length results. pulp_items_to_select results ! i = (results ! i = Some 1)"
    by (simp add: pulp_items_to_select_def)
  have 5: "\<exists>df1 df2. run_notebook (Some sol_x) val = ([df, df1, df2], None) \<and>
         df1 = df @ [(''scipy_items_to_select'', BoolCol (scipy_items_to_select sol_x))] \<and>
         df2 = df1 @ [(''pulp_items_to_select'',
                       BoolCol (pulp_items_to_select (pulp_decision_var_results val)))] \<and>
         dict_get df1 ''scipy_items_to_select'' = Inr (BoolCol (scipy_items_to_select sol_x)) \<and>
         dict_get df2 ''scipy_items_to_select'' = Inr (BoolCol (scipy_items_to_select sol_x)) \<and>
         dict_get df2 ''pulp_items_to_select''
           = Inr (BoolCol (pulp_items_to_select (pulp_decision_var_results val)))"
    if h: "DataFrame items = Inr df \<and> length sol_x = 7" for df val
  proof -
    from h have df: "DataFrame items = Inr df" and l: "length sol_x = 7" by simp_all
    define df1 where
      "df1 = df @ [(''scipy_items_to_select'', BoolCol (scipy_items_to_select sol_x))]"
    define df2 where
      "df2 = df1 @ [(''pulp_items_to_select'',
                     BoolCol (pulp_items_to_select (pulp_decision_var_results val)))]"
    have r: "run_notebook (Some sol_x) val = ([df, df1, df2], None)"
      unfolding run_notebook_ok [OF df l] df2_def df1_def by simp
    have a: "dict_get df1 ''scipy_items_to_select'' = Inr (BoolCol (scipy_items_to_select sol_x))"
      unfolding df1_def by (rule dict_get_scipy_column [OF df])
    have b: "dict_get df2 ''scipy_items_to_select'' = Inr (BoolCol (scipy_items_to_select sol_x))"
      unfolding df2_def df1_def append_assoc append_Cons append_Nil
      by (rule dict_get_scipy_column [OF df])
    have c: "dict_get df2 ''pulp_items_to_select''
           = Inr (BoolCol (pulp_items_to_select (pulp_decision_var_results val)))"
      unfolding df2_def df1_def append_assoc append_Cons append_Nil
      by (rule dict_get_two_columns(2) [OF df])
    from r a b c df1_def df2_def show ?thesis by blast
  qed
  from 1 2 3 4 5 show ?thesis by blast
qed

theorem items_to_select_entrywise_witness:
  "(1::nat) < length [1, 0.5, 0, 2, 1, 0.999, 1 :: real] \<and>
   scipy_items_to_select [1, 0.5, 0, 2, 1, 0.999, 1] ! 1 = False \<and>
   scipy_items_to_select [1, 0.5, 0, 2, 1, 0.999, 1]
     = [True, False, False, False, True, False, True] \<and>
   (2::nat) < length [Some 1, Some 0, None :: real option] \<and>
   pulp_items_to_select [Some 1, Some 0, None] ! 2 = False \<and>
   pulp_items_to_select [Some 1, Some 0, None] = [True, False, False]"
proof -
  note T = items_to_select_entrywise [of "[1, 0.5, 0, 2, 1, 0.999, 1]" "[Some 1, Some 0, None]"]
  have i: "(1::nat) < length [1, 0.5, 0, 2, 1, 0.999, 1 :: real]" by simp
  have j: "(2::nat) < length [Some 1, Some (0::real), None]" by simp
  from T i have "scipy_items_to_select [1, 0.5, 0, 2, 1, 0.999, 1] ! 1
      = ([1, 0.5, 0, 2, 1, 0.999, 1 :: real] ! 1 = 1)"
    by blast
  then have 1: "scipy_items_to_select [1, 0.5, 0, 2, 1, 0.999, 1] ! 1 = False" by simp
  from T j have "pulp_items_to_select [Some 1, Some 0, None] ! 2
      = ([Some 1, Some (0::real), None] ! 2 = Some 1)"
    by blast
  then have 2: "pulp_items_to_select [Some 1, Some 0, None] ! 2 = False" by simp
  have 3: "scipy_items_to_select [1, 0.5, 0, 2, 1, 0.999, 1]
     = [True, False, False, False, True, False, True]"
    by (simp add: scipy_items_to_select_def)
  have 4: "pulp_items_to_select [Some 1, Some 0, None] = [True, False, False]"
    by (simp add: pulp_items_to_select_def)
  from i 1 3 j 2 4 show ?thesis by blast
qed

text \<open>
  C4. The problem data is read-only through the run. Whatever the two solvers return,
  every state of the table, from its construction to the end of the run, starts with the
  four original columns (Item Id, Item Name, Weight (kg), Relative Value), unchanged and
  found under their names; the run either stops with the table as constructed or goes
  through the three states: the table, the table with the SciPy column appended, and the
  table with the SciPy and then the PuLP column appended. Every column after the first
  four is one of these two boolean columns.
\<close>

theorem original_columns_read_only:
  assumes "DataFrame items = Inr df"
  shows "map fst df = [''Item Id'', ''Item Name'', ''Weight (kg)'', ''Relative Value''] \<and>
    (fst (run_notebook sol_x val) = [df] \<or>
     (\<exists>x. sol_x = Some x \<and>
        run_notebook sol_x val =
          ([df,
            df @ [(''scipy_items_to_select'', BoolCol (scipy_items_to_select x))],
            df @ [(''scipy_items_to_select'', BoolCol (scipy_items_to_select x)),
                  (''pulp_items_to_select'',
                   BoolCol (pulp_items_to_select (pulp_decision_var_results val)))]],
           None))) \<and>
    (\<forall>d\<in>set (fst (run_notebook sol_x val)).
       take 4 d = df \<and>
       (\<forall>k\<in>set (map fst df). dict_get d k = dict_get df k) \<and>
       (\<forall>kc\<in>set (drop 4 d). \<exists>bs.
          kc = (''scipy_items_to_select'', BoolCol bs) \<or>
          kc = (''pulp_items_to_select'', BoolCol bs)))"
proof -
  note D = DataFrame_items_fields(1) [OF assms]
  have keys: "map fst df = [''Item Id'', ''Item Name'', ''Weight (kg)'', ''Relative Value'']"
    by (simp add: D)
  have l4: "length df = 4" by (simp add: D)
  have frame: "take 4 (df @ e) = df \<and>
       (\<forall>k\<in>set (map fst df). dict_get (df @ e) k = dict_get df k) \<and> drop 4 (df @ e) = e" for e
    by (simp add: l4 dict_get_append)
  have cases: "fst (run_notebook sol_x val) = [df] \<or>
     (\<exists>x. sol_x = Some x \<and>
        run_notebook sol_x val =
          ([df,
            df @ [(''scipy_items_to_select'', BoolCol (scipy_items_to_select x))],
            df @ [(''scipy_items_to_select'', BoolCol (scipy_items_to_select x)),
                  (''pulp_items_to_select'',
                   BoolCol (pulp_items_to_select (pulp_decision_var_results val)))]],
           None))"
  proof (cases "\<exists>x. sol_x = Some x \<and> length x = 7")
    case True
    then obtain x where "sol_x = Some x" "length x = 7" by blast
    with run_notebook_ok [OF assms, of x val] show ?thesis by simp
  next
    case False
    then have "sol_x = None \<or> (\<exists>x. sol_x = Some x \<and> length x \<noteq> 7)"
      by (cases sol_x) simp_all
    from run_notebook_fail [OF assms this] show ?thesis by simp
  qed
  have all: "take 4 d = df \<and>
       (\<forall>k\<in>set (map fst df). dict_get d k = dict_get df k) \<and>
       (\<forall>kc\<in>set (drop 4 d). \<exists>bs.
          kc = (''scipy_items_to_select'', BoolCol bs) \<or>
          kc = (''pulp_items_to_select'', BoolCol bs))"
    if "d \<in> set (fst (run_notebook sol_x val))" for d
  proof -
    from cases that consider "d = df @ []"
      | x where "d = df @ [(''scipy_items_to_select'', BoolCol (scipy_items_to_select x))]"
      | x where "d = df @ [(''scipy_items_to_select'', BoolCol (scipy_items_to_select x)),
                  (''pulp_items_to_select'',
                   BoolCol (pulp_items_to_select (pulp_decision_var_results val)))]"
      by auto
    then show ?thesis
    proof cases
      case 1
      show ?thesis unfolding 1 using frame [of "[]"] by simp
    next
      case 2
      show ?thesis unfolding 2
        using frame [of "[(''scipy_items_to_select'', BoolCol (scipy_items_to_select x))]"]
        by simp
    next
      case 3
      show ?thesis unfolding 3
        using frame [of "[(''scipy_items_to_select'', BoolCol (scipy_items_to_select x)),
                  (''pulp_items_to_select'',
                   BoolCol (pulp_items_to_select (pulp_decision_var_results val)))]"]
        by simp
    qed
  qed
  from keys cases all show ?thesis by blast
qed


theorem original_columns_read_only_witness:
  "\<exists>df d. DataFrame items = Inr df \<and>
     d \<in> set (fst (run_notebook (Some [1, 1, 1, 1, 0, 1, 0]) (\<lambda>n. Some 1))) \<and>
     length d = 6 \<and> take 4 d = df \<and>
     ''Weight (kg)'' \<in> set (map fst df) \<and>
     dict_get d ''Weight (kg)'' = dict_get df ''Weight (kg)'' \<and>
     dict_get df ''Weight (kg)'' = Inr (FloatCol (Weight_kg items))"
proof -
  obtain df where df: "DataFrame items = Inr df" by (simp add: DataFrame_items_eq)
  note D = DataFrame_items_fields(1) [OF df]
  define d where
    "d = df @ [(''scipy_items_to_select'', BoolCol (scipy_items_to_select [1, 1, 1, 1, 0, 1, 0])),
               (''pulp_items_to_select'',
                BoolCol (pulp_items_to_select (pulp_decision_var_results (\<lambda>n. Some 1))))]"
  have m: "d \<in> set (fst (run_notebook (Some [1, 1, 1, 1, 0, 1, 0]) (\<lambda>n. Some 1)))"
    by (simp add: run_notebook_ok [OF df] d_def)
  have k: "''Weight (kg)'' \<in> set (map fst df)" by (simp add: D)
  from original_columns_read_only [OF df, of "Some [1, 1, 1, 1, 0, 1, 0]" "\<lambda>n. Some 1"] m
  have "take 4 d = df \<and> (\<forall>k\<in>set (map fst df). dict_get d k = dict_get df k)"
    by blast
  with k have 1: "take 4 d = df" and 2: "dict_get d ''Weight (kg)'' = dict_get df ''Weight (kg)''"
    by blast+
  have 3: "length d = 6" by (simp add: d_def D)
  have 4: "dict_get df ''Weight (kg)'' = Inr (FloatCol (Weight_kg items))" by (simp add: D)
  from df m 3 1 k 2 4 show ?thesis by blast
qed

end
